theory Spec2Isabelle
  imports Main
begin

section \<open>Data shapes\<close>

text \<open>
  The three transfer objects of \<^verbatim>\<open>dto/user.go\<close>. Two of them have a field
  \<^verbatim>\<open>RefreshToken\<close>; the fields are told apart by the record's name.
\<close>

record UserRefreshTokenDTO =
  RefreshToken :: string

record UserTokensDTO =
  AccessToken :: string
  RefreshToken :: string

record UserCredentialsDTO =
  Email :: string
  Password :: string

text \<open>
  Go's \<^verbatim>\<open>time.Duration\<close> counts nanoseconds; an instant (\<^verbatim>\<open>time.Time\<close>) is modelled
  as nanoseconds since the epoch. The constant expressions of the handlers
  (\<^verbatim>\<open>100*time.Second\<close>, \<^verbatim>\<open>7*24*time.Hour\<close>) are far below the 64-bit range, so
  unbounded integers read them exactly.
\<close>

type_synonym time_Duration = int
type_synonym time_Time = int

definition time_Second :: time_Duration where
  "time_Second = 1000000000"

definition time_Hour :: time_Duration where
  "time_Hour = 3600 * time_Second"

text \<open>
  \<^verbatim>\<open>schema.Cookie\<close> is declared outside the given sources; the handlers build it
  with exactly the three fields below, and \<^verbatim>\<open>SetCookies\<close> reads exactly these.
\<close>

record schema_Cookie =
  Name :: string
  Value :: string
  Duration :: time_Duration

datatype http_SameSite =
  SameSiteDefaultMode | SameSiteLaxMode | SameSiteStrictMode | SameSiteNoneMode

text \<open>
  The fields of \<^verbatim>\<open>http.Cookie\<close> that \<^verbatim>\<open>SetCookies\<close> fills in. The field
  \<^verbatim>\<open>Domain\<close> is called \<open>CookieDomain\<close> here, since \<open>Domain\<close> is a constant of HOL.
\<close>

record http_Cookie =
  Name :: string
  Value :: string
  Path :: string
  CookieDomain :: string
  Expires :: time_Time
  HttpOnly :: bool
  Secure :: bool
  SameSite :: http_SameSite

section \<open>Errors\<close>

text \<open>
  A Go \<^verbatim>\<open>error\<close> value is modelled by its dynamic type, the text its
  \<^verbatim>\<open>Error()\<close> method returns, and the error it wraps, if any. The five named types
  are the ones of package \<^verbatim>\<open>customErr\<close> that the handlers test for; every other type
  (an \<^verbatim>\<open>errors.New\<close> value, a driver error, the context package's deadline error) is
  a \<open>ForeignError\<close> with its type name. The package \<^verbatim>\<open>customErr\<close> itself is not among
  the sources, so the message text of an error is whatever the value carries.
\<close>

datatype err_type =
  AlreadyExistsError
  | InvalidCredentialsError
  | InvalidTokenError
  | ExpiredTokenError
  | UserNotFoundError
  | ForeignError string

datatype go_error =
  GoError (dyn_type: err_type) (Error: string) (Unwrap: "go_error option")

text \<open>
  \<^verbatim>\<open>errors.As(err, &target)\<close> for a non-nil \<^verbatim>\<open>err\<close>: walk the chain of wrapped
  errors and report whether one of them has the target's type.
\<close>

fun errors_As :: "go_error \<Rightarrow> err_type \<Rightarrow> bool" where
  "errors_As (GoError t m u) target =
     (if t = target then True
      else (case u of None \<Rightarrow> False | Some e \<Rightarrow> errors_As e target))"

text \<open>The value \<^verbatim>\<open>context.DeadlineExceeded\<close>, which a cancelled context reports.\<close>

definition context_DeadlineExceeded :: go_error where
  "context_DeadlineExceeded =
     GoError (ForeignError ''context.deadlineExceededError'') ''context deadline exceeded'' None"

section \<open>Contexts and the injected capability\<close>

text \<open>
  \<^verbatim>\<open>context.WithTimeout(parent, d)\<close> reads the clock and returns a context whose
  deadline is that reading plus \<open>d\<close>. The parent here is always
  \<^verbatim>\<open>context.Background()\<close>, which has no deadline of its own.
\<close>

datatype context_Context = Background | WithDeadline context_Context time_Time

definition context_WithTimeout :: "context_Context \<Rightarrow> time_Time \<Rightarrow> time_Duration \<Rightarrow> context_Context" where
  "context_WithTimeout parent now d = WithDeadline parent (now + d)"

text \<open>
  The interface \<^verbatim>\<open>serviceInterface.AuthService\<close>: three methods, each returning a
  value and an error. A call either fails (\<open>Inl\<close>, the non-nil error) or succeeds
  (\<open>Inr\<close>, the value returned with a nil error). The type of the value \<^verbatim>\<open>SignUp\<close> returns is not visible in the sources
  and is left as the parameter \<open>'a\<close>.
\<close>

record 'a AuthService =
  SignUp :: "context_Context \<Rightarrow> UserCredentialsDTO \<Rightarrow> go_error + 'a"
  SignIn :: "context_Context \<Rightarrow> UserCredentialsDTO \<Rightarrow> go_error + UserTokensDTO"
  Refresh :: "context_Context \<Rightarrow> UserRefreshTokenDTO \<Rightarrow> go_error + UserTokensDTO"

text \<open>
  Of the controller's three fields only \<^verbatim>\<open>authService\<close> is read by the handlers as
  a value; \<^verbatim>\<open>requestValidator\<close> is used by the route registration alone, and the
  logger's effect is recorded in the state below.
\<close>

record 'a AuthController =
  authService :: "'a AuthService"

datatype svc_call =
  CallSignUp context_Context UserCredentialsDTO
  | CallSignIn context_Context UserCredentialsDTO
  | CallRefresh context_Context UserRefreshTokenDTO

section \<open>The request and the effects of a handler\<close>

text \<open>
  What a handler reads from \<^verbatim>\<open>*gin.Context\<close>: the keys set by earlier middleware
  (\<^verbatim>\<open>c.MustGet\<close>) and the request's cookies as \<^verbatim>\<open>c.Cookie\<close> returns them
  (\<open>None\<close> when \<^verbatim>\<open>c.Cookie\<close> returns an error). gin's \<^verbatim>\<open>c.Cookie\<close> returns an
  error only when the request has no cookie of that name; a cookie that is present but
  whose value it cannot decode comes back as the empty string with a nil error.
\<close>

datatype any_value = CredentialsVal UserCredentialsDTO | OtherVal

record gin_Request =
  Keys :: "string \<rightharpoonup> any_value"
  cookies :: "string \<rightharpoonup> string"

datatype go_panic = KeyDoesNotExist string | TypeAssertionFailed

definition MustGet :: "gin_Request \<Rightarrow> string \<Rightarrow> go_panic + any_value" where
  "MustGet c key = (case Keys c key of None \<Rightarrow> Inl (KeyDoesNotExist key) | Some v \<Rightarrow> Inr v)"

text \<open>The type assertion \<^verbatim>\<open>.(dto.UserCredentialsDTO)\<close>.\<close>

definition as_UserCredentialsDTO :: "any_value \<Rightarrow> go_panic + UserCredentialsDTO" where
  "as_UserCredentialsDTO v =
     (case v of CredentialsVal d \<Rightarrow> Inr d | OtherVal \<Rightarrow> Inl TypeAssertionFailed)"

text \<open>
  \<^verbatim>\<open>gin.H\<close> is a map from field names to values; every body the handlers write is
  an object literal with string values, kept here as the list of its fields.
\<close>

type_synonym gin_H = "(string \<times> string) list"

text \<open>
  Everything a handler does besides returning: the status and body written by
  \<^verbatim>\<open>c.JSON\<close>, the cookies handed to \<^verbatim>\<open>http.SetCookie\<close> in order, the lines given to
  the logger, the calls made to the injected capability, and how often the clock was read.
\<close>

record world =
  Status :: nat
  Body :: "gin_H option"
  SetCookie :: "http_Cookie list"
  logged :: "(string \<times> go_error) list"
  calls :: "svc_call list"
  now_reads :: nat

definition fresh :: world where
  "fresh = \<lparr>Status = 200, Body = None, SetCookie = [], logged = [], calls = [], now_reads = 0\<rparr>"

abbreviation http_StatusOK :: nat where "http_StatusOK \<equiv> 200"
abbreviation http_StatusUnauthorized :: nat where "http_StatusUnauthorized \<equiv> 401"
abbreviation http_StatusConflict :: nat where "http_StatusConflict \<equiv> 409"
abbreviation http_StatusInternalServerError :: nat where "http_StatusInternalServerError \<equiv> 500"

definition c_JSON :: "world \<Rightarrow> nat \<Rightarrow> gin_H \<Rightarrow> world" where
  "c_JSON w code obj = w\<lparr>Status := code, Body := Some obj\<rparr>"

definition logger_Error :: "world \<Rightarrow> string \<Rightarrow> go_error \<Rightarrow> world" where
  "logger_Error w msg err = w\<lparr>logged := logged w @ [(msg, err)]\<rparr>"

text \<open>
  \<^verbatim>\<open>http.SetCookie\<close> is recorded by the cookie it is given, as the handler built it;
  how \<^verbatim>\<open>net/http\<close> writes that cookie into a \<^verbatim>\<open>Set-Cookie\<close> header line is not part
  of these sources. Likewise \<^verbatim>\<open>c.JSON\<close> is recorded by the status and the object it is
  given.
\<close>

definition http_SetCookie :: "world \<Rightarrow> http_Cookie \<Rightarrow> world" where
  "http_SetCookie w cookie = w\<lparr>SetCookie := SetCookie w @ [cookie]\<rparr>"

definition c_Cookie :: "gin_Request \<Rightarrow> string \<Rightarrow> string option" where
  "c_Cookie c name = cookies c name"

section \<open>pkg/request/response.go\<close>

text \<open>
  The loop of \<^verbatim>\<open>SetCookies\<close>: one clock reading and one \<^verbatim>\<open>http.SetCookie\<close> per
  element, in the order of the slice. The clock is a function from the number of
  readings made so far to the instant read.
\<close>

fun SetCookies :: "(nat \<Rightarrow> time_Time) \<Rightarrow> world \<Rightarrow> schema_Cookie list \<Rightarrow> world" where
  "SetCookies clock w [] = w"
| "SetCookies clock w (cookieData # rest) =
     SetCookies clock
       (http_SetCookie (w\<lparr>now_reads := Suc (now_reads w)\<rparr>)
          \<lparr>Name = schema_Cookie.Name cookieData,
           Value = schema_Cookie.Value cookieData,
           Path = ''/'',
           CookieDomain = '''',
           Expires = clock (now_reads w) + Duration cookieData,
           HttpOnly = True,
           Secure = True,
           SameSite = SameSiteStrictMode\<rparr>)
       rest"

section \<open>The mapper\<close>

text \<open>
  Modelled from the spec: \<^verbatim>\<open>mapper.MapToUserRefreshTokenDTO\<close> is not among the
  sources. The specification says of the refresh token envelope that it is "extracted
  from a transport-level cookie rather than the request body, then wrapped into the same
  shape the Session Protocol expects": the envelope holds the string it is given.
\<close>

definition MapToUserRefreshTokenDTO :: "string \<Rightarrow> UserRefreshTokenDTO" where
  "MapToUserRefreshTokenDTO refreshToken = \<lparr>UserRefreshTokenDTO.RefreshToken = refreshToken\<rparr>"

section \<open>The handlers of the controller\<close>

text \<open>
  Each handler starts from a fresh response, creates its context with one clock reading,
  and ends in a panic (\<open>Inl\<close>) or in the effects it has had (\<open>Inr\<close>). The deferred
  \<^verbatim>\<open>cancel()\<close> runs on every exit, after the capability has returned; it releases the
  context's timer and changes nothing that is recorded here.
\<close>

definition new_ctx :: "(nat \<Rightarrow> time_Time) \<Rightarrow> world \<Rightarrow> context_Context \<times> world" where
  "new_ctx clock w =
     (context_WithTimeout Background (clock (now_reads w)) (100 * time_Second),
      w\<lparr>now_reads := Suc (now_reads w)\<rparr>)"

definition AuthController_SignUp ::
  "'a AuthController \<Rightarrow> (nat \<Rightarrow> time_Time) \<Rightarrow> gin_Request \<Rightarrow> go_panic + world" where
  "AuthController_SignUp ac clock c =
     (let (ctx, w) = new_ctx clock fresh in
      (case MustGet c ''validatedBody'' of
         Inl p \<Rightarrow> Inl p
       | Inr v \<Rightarrow>
          (case as_UserCredentialsDTO v of
             Inl p \<Rightarrow> Inl p
           | Inr userCredentialsDTO \<Rightarrow>
              (let w = w\<lparr>calls := calls w @ [CallSignUp ctx userCredentialsDTO]\<rparr> in
               (case SignUp (authService ac) ctx userCredentialsDTO of
                  Inl err \<Rightarrow>
                    (if errors_As err AlreadyExistsError
                     then Inr (c_JSON w http_StatusConflict [(''message'', Error err)])
                     else Inr (c_JSON (logger_Error w ''Error while authorizing: '' err)
                                 http_StatusInternalServerError [(''message'', Error err)]))
                | Inr _ \<Rightarrow>
                    Inr (c_JSON w http_StatusOK
                           [(''message'', ''User successfully registered'')]))))))"

definition AuthController_SignIn ::
  "'a AuthController \<Rightarrow> (nat \<Rightarrow> time_Time) \<Rightarrow> gin_Request \<Rightarrow> go_panic + world" where
  "AuthController_SignIn ac clock c =
     (let (ctx, w) = new_ctx clock fresh in
      (case MustGet c ''validatedBody'' of
         Inl p \<Rightarrow> Inl p
       | Inr v \<Rightarrow>
          (case as_UserCredentialsDTO v of
             Inl p \<Rightarrow> Inl p
           | Inr userCredentialsDTO \<Rightarrow>
              (let w = w\<lparr>calls := calls w @ [CallSignIn ctx userCredentialsDTO]\<rparr> in
               (case SignIn (authService ac) ctx userCredentialsDTO of
                  Inl err \<Rightarrow>
                    (if errors_As err InvalidCredentialsError
                     then Inr (c_JSON w http_StatusUnauthorized [(''message'', Error err)])
                     else Inr (c_JSON (logger_Error w ''Error while registering: '' err)
                                 http_StatusInternalServerError [(''message'', Error err)]))
                | Inr userTokensDTO \<Rightarrow>
                    Inr (c_JSON
                          (SetCookies clock w
                             [\<lparr>schema_Cookie.Name = ''access_token'',
                               schema_Cookie.Value = AccessToken userTokensDTO,
                               Duration = 7 * 24 * time_Hour\<rparr>,
                              \<lparr>schema_Cookie.Name = ''refresh_token'',
                               schema_Cookie.Value = UserTokensDTO.RefreshToken userTokensDTO,
                               Duration = 7 * 24 * time_Hour\<rparr>])
                          http_StatusOK [(''message'', ''Logged in successfully'')]))))))"

definition AuthController_Refresh ::
  "'a AuthController \<Rightarrow> (nat \<Rightarrow> time_Time) \<Rightarrow> gin_Request \<Rightarrow> go_panic + world" where
  "AuthController_Refresh ac clock c =
     (let (ctx, w) = new_ctx clock fresh in
      (case c_Cookie c ''refresh_token'' of
         None \<Rightarrow>
           Inr (c_JSON w http_StatusUnauthorized [(''error'', ''Invalid refresh token'')])
       | Some refreshToken \<Rightarrow>
          (let refreshTokenDTO = MapToUserRefreshTokenDTO refreshToken;
               w = w\<lparr>calls := calls w @ [CallRefresh ctx refreshTokenDTO]\<rparr> in
           (case Refresh (authService ac) ctx refreshTokenDTO of
              Inl err \<Rightarrow>
                (if errors_As err InvalidTokenError \<or> errors_As err ExpiredTokenError
                    \<or> errors_As err UserNotFoundError
                 then Inr (c_JSON w http_StatusUnauthorized [(''message'', Error err)])
                 else Inr (c_JSON (logger_Error w ''Error while refreshing: '' err)
                             http_StatusInternalServerError [(''message'', Error err)]))
            | Inr userTokensDTO \<Rightarrow>
                Inr (c_JSON
                      (SetCookies clock w
                         [\<lparr>schema_Cookie.Name = ''access_token'',
                           schema_Cookie.Value = AccessToken userTokensDTO,
                           Duration = 7 * 24 * time_Hour\<rparr>,
                          \<lparr>schema_Cookie.Name = ''refresh_token'',
                           schema_Cookie.Value = UserTokensDTO.RefreshToken userTokensDTO,
                           Duration = 7 * 24 * time_Hour\<rparr>])
                      http_StatusOK [(''message'', ''Tokens updated successfully'')])))))"

section \<open>Notation and fixtures for the statements\<close>

text \<open>
  The context every handler creates: the first clock reading plus \<^verbatim>\<open>100*time.Second\<close>.
\<close>

abbreviation ctx_of :: "(nat \<Rightarrow> time_Time) \<Rightarrow> context_Context" where
  "ctx_of clock \<equiv> WithDeadline Background (clock 0 + 100 * time_Second)"

text \<open>
  What the caller sees of an outcome: the status, the body and the cookies; nothing when
  the handler panicked.
\<close>

definition response :: "go_panic + world \<Rightarrow> (nat \<times> gin_H option \<times> http_Cookie list) option" where
  "response r = (case r of Inl p \<Rightarrow> None | Inr w \<Rightarrow> Some (Status w, Body w, SetCookie w))"

text \<open>
  A capability that answers each method with a fixed result, and a concrete request,
  token pair and clock, for the closed instances below.
\<close>

definition stub_AuthService ::
  "go_error + 'a \<Rightarrow> go_error + UserTokensDTO \<Rightarrow> go_error + UserTokensDTO \<Rightarrow> 'a AuthService" where
  "stub_AuthService r1 r2 r3 =
     \<lparr>SignUp = (\<lambda>ctx d. r1), SignIn = (\<lambda>ctx d. r2), Refresh = (\<lambda>ctx d. r3)\<rparr>"

definition demo_credentials :: UserCredentialsDTO where
  "demo_credentials = \<lparr>Email = ''a@b.com'', Password = ''secret1''\<rparr>"

definition demo_tokens :: UserTokensDTO where
  "demo_tokens = \<lparr>AccessToken = ''A1'', RefreshToken = ''R1''\<rparr>"

definition demo_request :: gin_Request where
  "demo_request =
     \<lparr>Keys = [''validatedBody'' \<mapsto> CredentialsVal demo_credentials],
      cookies = [''refresh_token'' \<mapsto> ''R0'']\<rparr>"

definition demo_clock :: "nat \<Rightarrow> time_Time" where
  "demo_clock n = 1000 * int n"

definition stub_controller ::
  "go_error + unit \<Rightarrow> go_error + UserTokensDTO \<Rightarrow> go_error + UserTokensDTO \<Rightarrow> unit AuthController" where
  "stub_controller r1 r2 r3 = \<lparr>authService = stub_AuthService r1 r2 r3\<rparr>"

section \<open>What each handler does, path by path\<close>

lemma stub_simps [simp]:
  "SignUp (authService (stub_controller r1 r2 r3)) ctx d = r1"
  "SignIn (authService (stub_controller r1 r2 r3)) ctx d = r2"
  "Refresh (authService (stub_controller r1 r2 r3)) ctx d' = r3"
  by (simp_all add: stub_controller_def stub_AuthService_def)

lemma demo_request_simps [simp]:
  "Keys demo_request ''validatedBody'' = Some (CredentialsVal demo_credentials)"
  "cookies demo_request ''refresh_token'' = Some ''R0''"
  by (simp_all add: demo_request_def)

lemma new_ctx_fresh:
  "new_ctx clock fresh =
     (ctx_of clock,
      \<lparr>Status = 200, Body = None, SetCookie = [], logged = [], calls = [], now_reads = 1\<rparr>)"
  by (simp add: new_ctx_def fresh_def context_WithTimeout_def)

lemma SignUp_run:
  assumes "Keys c ''validatedBody'' = Some (CredentialsVal creds)"
  shows "AuthController_SignUp ac clock c =
     (case SignUp (authService ac) (ctx_of clock) creds of
        Inl err \<Rightarrow>
          Inr \<lparr>Status = (if errors_As err AlreadyExistsError then 409 else 500),
               Body = Some [(''message'', Error err)],
               SetCookie = [],
               logged = (if errors_As err AlreadyExistsError then []
                         else [(''Error while authorizing: '', err)]),
               calls = [CallSignUp (ctx_of clock) creds],
               now_reads = 1\<rparr>
      | Inr a \<Rightarrow>
          Inr \<lparr>Status = 200,
               Body = Some [(''message'', ''User successfully registered'')],
               SetCookie = [],
               logged = [],
               calls = [CallSignUp (ctx_of clock) creds],
               now_reads = 1\<rparr>)"
  using assms
  by (simp add: AuthController_SignUp_def new_ctx_fresh MustGet_def as_UserCredentialsDTO_def
      c_JSON_def logger_Error_def split: sum.splits)

lemma SetCookies_pair:
  "SetCookies clock w
     [\<lparr>schema_Cookie.Name = n1, schema_Cookie.Value = v1, Duration = d1\<rparr>,
      \<lparr>schema_Cookie.Name = n2, schema_Cookie.Value = v2, Duration = d2\<rparr>] =
   w\<lparr>SetCookie := SetCookie w @
        [\<lparr>Name = n1, Value = v1, Path = ''/'', CookieDomain = '''',
          Expires = clock (now_reads w) + d1, HttpOnly = True, Secure = True,
          SameSite = SameSiteStrictMode\<rparr>,
         \<lparr>Name = n2, Value = v2, Path = ''/'', CookieDomain = '''',
          Expires = clock (Suc (now_reads w)) + d2, HttpOnly = True, Secure = True,
          SameSite = SameSiteStrictMode\<rparr>],
      now_reads := Suc (Suc (now_reads w))\<rparr>"
  by (simp add: http_SetCookie_def)

lemma SignIn_run:
  assumes "Keys c ''validatedBody'' = Some (CredentialsVal creds)"
  shows "AuthController_SignIn ac clock c =
     (case SignIn (authService ac) (ctx_of clock) creds of
        Inl err \<Rightarrow>
          Inr \<lparr>Status = (if errors_As err InvalidCredentialsError then 401 else 500),
               Body = Some [(''message'', Error err)],
               SetCookie = [],
               logged = (if errors_As err InvalidCredentialsError then []
                         else [(''Error while registering: '', err)]),
               calls = [CallSignIn (ctx_of clock) creds],
               now_reads = 1\<rparr>
      | Inr tp \<Rightarrow>
          Inr \<lparr>Status = 200,
               Body = Some [(''message'', ''Logged in successfully'')],
               SetCookie =
                 [\<lparr>Name = ''access_token'', Value = AccessToken tp, Path = ''/'',
                   CookieDomain = '''', Expires = clock 1 + 7 * 24 * time_Hour,
                   HttpOnly = True, Secure = True, SameSite = SameSiteStrictMode\<rparr>,
                  \<lparr>Name = ''refresh_token'', Value = UserTokensDTO.RefreshToken tp, Path = ''/'',
                   CookieDomain = '''', Expires = clock 2 + 7 * 24 * time_Hour,
                   HttpOnly = True, Secure = True, SameSite = SameSiteStrictMode\<rparr>],
               logged = [],
               calls = [CallSignIn (ctx_of clock) creds],
               now_reads = 3\<rparr>)"
  using assms
  by (simp add: AuthController_SignIn_def new_ctx_fresh MustGet_def as_UserCredentialsDTO_def
      c_JSON_def logger_Error_def SetCookies_pair numeral_2_eq_2 numeral_3_eq_3
      del: SetCookies.simps split: sum.splits)

lemma Refresh_run:
  assumes "cookies c ''refresh_token'' = Some tok"
  shows "AuthController_Refresh ac clock c =
     (case Refresh (authService ac) (ctx_of clock) (MapToUserRefreshTokenDTO tok) of
        Inl err \<Rightarrow>
          Inr \<lparr>Status = (if errors_As err InvalidTokenError \<or> errors_As err ExpiredTokenError
                             \<or> errors_As err UserNotFoundError then 401 else 500),
               Body = Some [(''message'', Error err)],
               SetCookie = [],
               logged = (if errors_As err InvalidTokenError \<or> errors_As err ExpiredTokenError
                            \<or> errors_As err UserNotFoundError then []
                         else [(''Error while refreshing: '', err)]),
               calls = [CallRefresh (ctx_of clock) (MapToUserRefreshTokenDTO tok)],
               now_reads = 1\<rparr>
      | Inr tp \<Rightarrow>
          Inr \<lparr>Status = 200,
               Body = Some [(''message'', ''Tokens updated successfully'')],
               SetCookie =
                 [\<lparr>Name = ''access_token'', Value = AccessToken tp, Path = ''/'',
                   CookieDomain = '''', Expires = clock 1 + 7 * 24 * time_Hour,
                   HttpOnly = True, Secure = True, SameSite = SameSiteStrictMode\<rparr>,
                  \<lparr>Name = ''refresh_token'', Value = UserTokensDTO.RefreshToken tp, Path = ''/'',
                   CookieDomain = '''', Expires = clock 2 + 7 * 24 * time_Hour,
                   HttpOnly = True, Secure = True, SameSite = SameSiteStrictMode\<rparr>],
               logged = [],
               calls = [CallRefresh (ctx_of clock) (MapToUserRefreshTokenDTO tok)],
               now_reads = 3\<rparr>)"
  using assms
  by (simp add: AuthController_Refresh_def new_ctx_fresh c_Cookie_def
      c_JSON_def logger_Error_def SetCookies_pair numeral_2_eq_2 numeral_3_eq_3
      del: SetCookies.simps split: sum.splits)

lemma Refresh_no_cookie:
  assumes "cookies c ''refresh_token'' = None"
  shows "AuthController_Refresh ac clock c =
         Inr \<lparr>Status = 401, Body = Some [(''error'', ''Invalid refresh token'')],
               SetCookie = [], logged = [], calls = [], now_reads = 1\<rparr>"
  using assms
  by (simp add: AuthController_Refresh_def new_ctx_fresh c_Cookie_def c_JSON_def)

lemma SignUp_outcome:
  "AuthController_SignUp ac clock c =
     (case Keys c ''validatedBody'' of
        None \<Rightarrow> Inl (KeyDoesNotExist ''validatedBody'')
      | Some OtherVal \<Rightarrow> Inl TypeAssertionFailed
      | Some (CredentialsVal creds) \<Rightarrow>
         (case SignUp (authService ac) (ctx_of clock) creds of
            Inl err \<Rightarrow>
              Inr \<lparr>Status = (if errors_As err AlreadyExistsError then 409 else 500),
                   Body = Some [(''message'', Error err)],
                   SetCookie = [],
                   logged = (if errors_As err AlreadyExistsError then []
                             else [(''Error while authorizing: '', err)]),
                   calls = [CallSignUp (ctx_of clock) creds],
                   now_reads = 1\<rparr>
          | Inr a \<Rightarrow>
              Inr \<lparr>Status = 200,
                   Body = Some [(''message'', ''User successfully registered'')],
                   SetCookie = [],
                   logged = [],
                   calls = [CallSignUp (ctx_of clock) creds],
                   now_reads = 1\<rparr>))"
proof (cases "Keys c ''validatedBody''")
  case None
  then show ?thesis
    by (simp add: AuthController_SignUp_def new_ctx_fresh MustGet_def)
next
  case (Some v)
  show ?thesis
  proof (cases v)
    case (CredentialsVal creds)
    with Some show ?thesis by (simp add: SignUp_run)
  next
    case OtherVal
    with Some show ?thesis
      by (simp add: AuthController_SignUp_def new_ctx_fresh MustGet_def as_UserCredentialsDTO_def)
  qed
qed

lemma SignIn_panic:
  "Keys c ''validatedBody'' = None \<Longrightarrow>
     AuthController_SignIn ac clock c = Inl (KeyDoesNotExist ''validatedBody'')"
  "Keys c ''validatedBody'' = Some OtherVal \<Longrightarrow>
     AuthController_SignIn ac clock c = Inl TypeAssertionFailed"
  by (simp_all add: AuthController_SignIn_def new_ctx_fresh MustGet_def as_UserCredentialsDTO_def)

section \<open>The claims\<close>

text \<open>
  C1. When the capability returns a token pair to \<^verbatim>\<open>SignIn\<close> or \<^verbatim>\<open>Refresh\<close>, the
  handler hands exactly two cookies to \<^verbatim>\<open>http.SetCookie\<close>: \<^verbatim>\<open>access_token\<close> first,
  \<^verbatim>\<open>refresh_token\<close> second, each expiring \<^verbatim>\<open>7*24*time.Hour\<close> after the clock
  reading taken for it, with path \<^verbatim>\<open>/\<close>, an empty domain, http-only, secure and
  same-site strict. No handler ever sets one cookie of the pair alone: \<^verbatim>\<open>SignUp\<close>
  sets none, and \<^verbatim>\<open>SignIn\<close> and \<^verbatim>\<open>Refresh\<close> set none or both.
\<close>

theorem token_pair_cookies:
  fixes ac :: "'a AuthController"
  shows
  "(Keys c ''validatedBody'' = Some (CredentialsVal creds)
      \<and> SignIn (authService ac) (ctx_of clock) creds = Inr tp \<longrightarrow>
      (\<exists>w. AuthController_SignIn ac clock c = Inr w \<and>
           SetCookie w =
             [\<lparr>Name = ''access_token'', Value = AccessToken tp, Path = ''/'',
               CookieDomain = '''', Expires = clock 1 + 7 * 24 * time_Hour,
               HttpOnly = True, Secure = True, SameSite = SameSiteStrictMode\<rparr>,
              \<lparr>Name = ''refresh_token'', Value = UserTokensDTO.RefreshToken tp, Path = ''/'',
               CookieDomain = '''', Expires = clock 2 + 7 * 24 * time_Hour,
               HttpOnly = True, Secure = True, SameSite = SameSiteStrictMode\<rparr>]))
   \<and> (c_Cookie c ''refresh_token'' = Some tok
      \<and> Refresh (authService ac) (ctx_of clock) (MapToUserRefreshTokenDTO tok) = Inr tp' \<longrightarrow>
      (\<exists>w. AuthController_Refresh ac clock c = Inr w \<and>
           SetCookie w =
             [\<lparr>Name = ''access_token'', Value = AccessToken tp', Path = ''/'',
               CookieDomain = '''', Expires = clock 1 + 7 * 24 * time_Hour,
               HttpOnly = True, Secure = True, SameSite = SameSiteStrictMode\<rparr>,
              \<lparr>Name = ''refresh_token'', Value = UserTokensDTO.RefreshToken tp', Path = ''/'',
               CookieDomain = '''', Expires = clock 2 + 7 * 24 * time_Hour,
               HttpOnly = True, Secure = True, SameSite = SameSiteStrictMode\<rparr>]))
   \<and> (\<forall>w. AuthController_SignUp ac clock c = Inr w \<longrightarrow> SetCookie w = [])
   \<and> (\<forall>w. AuthController_SignIn ac clock c = Inr w \<longrightarrow>
          SetCookie w = [] \<or> map Name (SetCookie w) = [''access_token'', ''refresh_token''])
   \<and> (\<forall>w. AuthController_Refresh ac clock c = Inr w \<longrightarrow>
          SetCookie w = [] \<or> map Name (SetCookie w) = [''access_token'', ''refresh_token''])"
proof (intro conjI allI impI)
  assume "Keys c ''validatedBody'' = Some (CredentialsVal creds)
      \<and> SignIn (authService ac) (ctx_of clock) creds = Inr tp"
  then show "\<exists>w. AuthController_SignIn ac clock c = Inr w \<and>
           SetCookie w =
             [\<lparr>Name = ''access_token'', Value = AccessToken tp, Path = ''/'',
               CookieDomain = '''', Expires = clock 1 + 7 * 24 * time_Hour,
               HttpOnly = True, Secure = True, SameSite = SameSiteStrictMode\<rparr>,
              \<lparr>Name = ''refresh_token'', Value = UserTokensDTO.RefreshToken tp, Path = ''/'',
               CookieDomain = '''', Expires = clock 2 + 7 * 24 * time_Hour,
               HttpOnly = True, Secure = True, SameSite = SameSiteStrictMode\<rparr>]"
    by (simp add: SignIn_run)
next
  assume "c_Cookie c ''refresh_token'' = Some tok
      \<and> Refresh (authService ac) (ctx_of clock) (MapToUserRefreshTokenDTO tok) = Inr tp'"
  then show "\<exists>w. AuthController_Refresh ac clock c = Inr w \<and>
           SetCookie w =
             [\<lparr>Name = ''access_token'', Value = AccessToken tp', Path = ''/'',
               CookieDomain = '''', Expires = clock 1 + 7 * 24 * time_Hour,
               HttpOnly = True, Secure = True, SameSite = SameSiteStrictMode\<rparr>,
              \<lparr>Name = ''refresh_token'', Value = UserTokensDTO.RefreshToken tp', Path = ''/'',
               CookieDomain = '''', Expires = clock 2 + 7 * 24 * time_Hour,
               HttpOnly = True, Secure = True, SameSite = SameSiteStrictMode\<rparr>]"
    by (simp add: Refresh_run c_Cookie_def)
next
  fix w assume "AuthController_SignUp ac clock c = Inr w"
  then show "SetCookie w = []"
    by (auto simp add: SignUp_outcome split: option.splits any_value.splits sum.splits)
next
  fix w assume r: "AuthController_SignIn ac clock c = Inr w"
  show "SetCookie w = [] \<or> map Name (SetCookie w) = [''access_token'', ''refresh_token'']"
  proof (cases "Keys c ''validatedBody''")
    case None
    with r show ?thesis by (simp add: SignIn_panic)
  next
    case (Some v)
    show ?thesis
    proof (cases v)
      case (CredentialsVal d)
      with Some r show ?thesis
        by (auto simp add: SignIn_run split: sum.splits)
    next
      case OtherVal
      with Some r show ?thesis by (simp add: SignIn_panic)
    qed
  qed
next
  fix w assume r: "AuthController_Refresh ac clock c = Inr w"
  show "SetCookie w = [] \<or> map Name (SetCookie w) = [''access_token'', ''refresh_token'']"
  proof (cases "cookies c ''refresh_token''")
    case None
    with r show ?thesis by (auto simp add: Refresh_no_cookie)
  next
    case (Some t)
    with r show ?thesis by (auto simp add: Refresh_run split: sum.splits)
  qed
qed

theorem token_pair_cookies_witness:
  "Keys demo_request ''validatedBody'' = Some (CredentialsVal demo_credentials)
   \<and> SignIn (authService (stub_controller (Inr ()) (Inr demo_tokens) (Inr demo_tokens)))
        (ctx_of demo_clock) demo_credentials = Inr demo_tokens
   \<and> c_Cookie demo_request ''refresh_token'' = Some ''R0''
   \<and> Refresh (authService (stub_controller (Inr ()) (Inr demo_tokens) (Inr demo_tokens)))
        (ctx_of demo_clock) (MapToUserRefreshTokenDTO ''R0'') = Inr demo_tokens
   \<and> (\<exists>w. AuthController_SignIn
          (stub_controller (Inr ()) (Inr demo_tokens) (Inr demo_tokens)) demo_clock demo_request
          = Inr w
        \<and> SetCookie w =
             [\<lparr>Name = ''access_token'', Value = ''A1'', Path = ''/'',
               CookieDomain = '''', Expires = 604800000001000,
               HttpOnly = True, Secure = True, SameSite = SameSiteStrictMode\<rparr>,
              \<lparr>Name = ''refresh_token'', Value = ''R1'', Path = ''/'',
               CookieDomain = '''', Expires = 604800000002000,
               HttpOnly = True, Secure = True, SameSite = SameSiteStrictMode\<rparr>])
   \<and> (\<exists>w. AuthController_Refresh
          (stub_controller (Inr ()) (Inr demo_tokens) (Inr demo_tokens)) demo_clock demo_request
          = Inr w
        \<and> SetCookie w =
             [\<lparr>Name = ''access_token'', Value = ''A1'', Path = ''/'',
               CookieDomain = '''', Expires = 604800000001000,
               HttpOnly = True, Secure = True, SameSite = SameSiteStrictMode\<rparr>,
              \<lparr>Name = ''refresh_token'', Value = ''R1'', Path = ''/'',
               CookieDomain = '''', Expires = 604800000002000,
               HttpOnly = True, Secure = True, SameSite = SameSiteStrictMode\<rparr>])"
  using token_pair_cookies [of demo_request demo_credentials
      "stub_controller (Inr ()) (Inr demo_tokens) (Inr demo_tokens)" demo_clock demo_tokens
      "''R0''" demo_tokens]
  by (simp add: demo_tokens_def demo_clock_def time_Hour_def time_Second_def c_Cookie_def)

text \<open>
  C2 (as amended). When \<^verbatim>\<open>c.Cookie("refresh_token")\<close> returns an error, which is when
  the request has no cookie of that name, \<^verbatim>\<open>Refresh\<close> answers 401, sets no cookie and
  makes no call to the capability; the outcome is the same whatever capability was
  injected.
\<close>

theorem refresh_missing_cookie_unauthorized:
  fixes ac ac' :: "'a AuthController"
  assumes "c_Cookie c ''refresh_token'' = None"
  shows "(\<exists>w. AuthController_Refresh ac clock c = Inr w
              \<and> Status w = http_StatusUnauthorized \<and> calls w = [] \<and> SetCookie w = [])
         \<and> AuthController_Refresh ac clock c = AuthController_Refresh ac' clock c"
  using assms by (simp add: Refresh_no_cookie c_Cookie_def)

theorem refresh_missing_cookie_unauthorized_witness:
  "c_Cookie \<lparr>Keys = Map.empty, cookies = Map.empty\<rparr> ''refresh_token'' = None
   \<and> (\<exists>w. AuthController_Refresh (stub_controller (Inr ()) (Inr demo_tokens) (Inr demo_tokens))
             demo_clock \<lparr>Keys = Map.empty, cookies = Map.empty\<rparr> = Inr w
           \<and> Status w = http_StatusUnauthorized \<and> calls w = [] \<and> SetCookie w = [])"
proof -
  have h: "c_Cookie \<lparr>Keys = Map.empty, cookies = Map.empty\<rparr> ''refresh_token'' = None"
    by (simp add: c_Cookie_def)
  show ?thesis
    using h refresh_missing_cookie_unauthorized [OF h,
        of "stub_controller (Inr ()) (Inr demo_tokens) (Inr demo_tokens)" demo_clock]
    by simp
qed

text \<open>
  The claim as written also covers a cookie that is present and unreadable, and fails
  there: such a cookie reaches the handler as the empty string with no error, the guard
  does not fire, and the capability is called with that string. With a capability that
  accepts it the answer is 200 with a fresh pair of cookies.
\<close>

theorem refresh_undecoded_cookie_reaches_capability:
  "c_Cookie \<lparr>Keys = Map.empty, cookies = [''refresh_token'' \<mapsto> '''']\<rparr> ''refresh_token''
     = Some ''''
   \<and> AuthController_Refresh (stub_controller (Inr ()) (Inr demo_tokens) (Inr demo_tokens))
       demo_clock \<lparr>Keys = Map.empty, cookies = [''refresh_token'' \<mapsto> '''']\<rparr>
     = Inr \<lparr>Status = http_StatusOK,
            Body = Some [(''message'', ''Tokens updated successfully'')],
            SetCookie =
              [\<lparr>Name = ''access_token'', Value = ''A1'', Path = ''/'',
                CookieDomain = '''', Expires = 604800000001000,
                HttpOnly = True, Secure = True, SameSite = SameSiteStrictMode\<rparr>,
               \<lparr>Name = ''refresh_token'', Value = ''R1'', Path = ''/'',
                CookieDomain = '''', Expires = 604800000002000,
                HttpOnly = True, Secure = True, SameSite = SameSiteStrictMode\<rparr>],
            logged = [],
            calls = [CallRefresh (WithDeadline Background 100000000000)
                       (MapToUserRefreshTokenDTO '''')],
            now_reads = 3\<rparr>"
  by (simp add: c_Cookie_def Refresh_run [where tok = "''''"] demo_tokens_def demo_clock_def
      time_Hour_def time_Second_def)

text \<open>
  C3 (as amended). When the capability fails a \<^verbatim>\<open>Refresh\<close> call, the handler answers
  401 if the error is an \<^verbatim>\<open>InvalidTokenError\<close>, an \<^verbatim>\<open>ExpiredTokenError\<close> or a
  \<^verbatim>\<open>UserNotFoundError\<close>, and 500 otherwise; it sets no cookie, and the body is the
  single field \<^verbatim>\<open>message\<close> holding the text of \<^verbatim>\<open>err.Error()\<close>. The three kinds
  are therefore told apart by nothing but the message text the error carries.
\<close>

theorem refresh_failure_classified:
  assumes "c_Cookie c ''refresh_token'' = Some tok"
    and "Refresh (authService ac) (ctx_of clock) (MapToUserRefreshTokenDTO tok) = Inl err"
  shows "response (AuthController_Refresh ac clock c) =
           Some (if errors_As err InvalidTokenError \<or> errors_As err ExpiredTokenError
                    \<or> errors_As err UserNotFoundError
                 then http_StatusUnauthorized else http_StatusInternalServerError,
                 Some [(''message'', Error err)],
                 [])"
  using assms by (simp add: Refresh_run c_Cookie_def response_def)

theorem refresh_failure_classified_witness:
  "c_Cookie demo_request ''refresh_token'' = Some ''R0''
   \<and> Refresh (authService (stub_controller (Inr ()) (Inr demo_tokens)
          (Inl (GoError UserNotFoundError ''user not found'' None))))
        (ctx_of demo_clock) (MapToUserRefreshTokenDTO ''R0'')
      = Inl (GoError UserNotFoundError ''user not found'' None)
   \<and> response (AuthController_Refresh (stub_controller (Inr ()) (Inr demo_tokens)
          (Inl (GoError UserNotFoundError ''user not found'' None))) demo_clock demo_request)
      = Some (http_StatusUnauthorized, Some [(''message'', ''user not found'')], [])"
  using refresh_failure_classified [of demo_request "''R0''"
      "stub_controller (Inr ()) (Inr demo_tokens)
         (Inl (GoError UserNotFoundError ''user not found'' None))"
      demo_clock "GoError UserNotFoundError ''user not found'' None"]
  by (simp add: c_Cookie_def)

text \<open>
  The claim as written fails: an invalid token and an expired token both give 401, but
  the two bodies differ as soon as the two errors carry different texts.
\<close>

theorem refresh_failure_kinds_distinguishable:
  "response (AuthController_Refresh (stub_controller (Inr ()) (Inr demo_tokens)
       (Inl (GoError InvalidTokenError ''invalid token'' None))) demo_clock demo_request)
     = Some (http_StatusUnauthorized, Some [(''message'', ''invalid token'')], [])
   \<and> response (AuthController_Refresh (stub_controller (Inr ()) (Inr demo_tokens)
       (Inl (GoError ExpiredTokenError ''token expired'' None))) demo_clock demo_request)
     = Some (http_StatusUnauthorized, Some [(''message'', ''token expired'')], [])
   \<and> response (AuthController_Refresh (stub_controller (Inr ()) (Inr demo_tokens)
       (Inl (GoError InvalidTokenError ''invalid token'' None))) demo_clock demo_request)
     \<noteq> response (AuthController_Refresh (stub_controller (Inr ()) (Inr demo_tokens)
       (Inl (GoError ExpiredTokenError ''token expired'' None))) demo_clock demo_request)"
  by (simp add: Refresh_run [where tok = "''R0''"] response_def)

text \<open>
  C4 (as amended). A failure that the handler does not classify (for \<^verbatim>\<open>SignUp\<close>: not
  an \<^verbatim>\<open>AlreadyExistsError\<close>; for \<^verbatim>\<open>SignIn\<close>: not an \<^verbatim>\<open>InvalidCredentialsError\<close>;
  for \<^verbatim>\<open>Refresh\<close>: none of the three token errors) is answered with 500 and no cookie,
  and is given to the logger. The body is the single field \<^verbatim>\<open>message\<close> holding the text
  of \<^verbatim>\<open>err.Error()\<close>: it is the same for two such failures exactly when their texts
  are the same.
\<close>

theorem unclassified_failure_internal:
  fixes ac :: "'a AuthController"
  shows
  "(Keys c ''validatedBody'' = Some (CredentialsVal creds)
      \<and> SignUp (authService ac) (ctx_of clock) creds = Inl e1
      \<and> \<not> errors_As e1 AlreadyExistsError \<longrightarrow>
      (\<exists>w. AuthController_SignUp ac clock c = Inr w
           \<and> Status w = http_StatusInternalServerError
           \<and> Body w = Some [(''message'', Error e1)] \<and> SetCookie w = []
           \<and> logged w = [(''Error while authorizing: '', e1)]))
   \<and> (Keys c ''validatedBody'' = Some (CredentialsVal creds)
      \<and> SignIn (authService ac) (ctx_of clock) creds = Inl e2
      \<and> \<not> errors_As e2 InvalidCredentialsError \<longrightarrow>
      (\<exists>w. AuthController_SignIn ac clock c = Inr w
           \<and> Status w = http_StatusInternalServerError
           \<and> Body w = Some [(''message'', Error e2)] \<and> SetCookie w = []
           \<and> logged w = [(''Error while registering: '', e2)]))
   \<and> (c_Cookie c ''refresh_token'' = Some tok
      \<and> Refresh (authService ac) (ctx_of clock) (MapToUserRefreshTokenDTO tok) = Inl e3
      \<and> \<not> errors_As e3 InvalidTokenError \<and> \<not> errors_As e3 ExpiredTokenError
      \<and> \<not> errors_As e3 UserNotFoundError \<longrightarrow>
      (\<exists>w. AuthController_Refresh ac clock c = Inr w
           \<and> Status w = http_StatusInternalServerError
           \<and> Body w = Some [(''message'', Error e3)] \<and> SetCookie w = []
           \<and> logged w = [(''Error while refreshing: '', e3)]))"
  by (simp add: SignUp_run SignIn_run Refresh_run c_Cookie_def)

theorem unclassified_failure_internal_witness:
  "Keys demo_request ''validatedBody'' = Some (CredentialsVal demo_credentials)
   \<and> SignUp (authService (stub_controller (Inl context_DeadlineExceeded)
          (Inl context_DeadlineExceeded) (Inl context_DeadlineExceeded)))
        (ctx_of demo_clock) demo_credentials = Inl context_DeadlineExceeded
   \<and> \<not> errors_As context_DeadlineExceeded AlreadyExistsError
   \<and> \<not> errors_As context_DeadlineExceeded InvalidCredentialsError
   \<and> c_Cookie demo_request ''refresh_token'' = Some ''R0''
   \<and> \<not> errors_As context_DeadlineExceeded InvalidTokenError
   \<and> \<not> errors_As context_DeadlineExceeded ExpiredTokenError
   \<and> \<not> errors_As context_DeadlineExceeded UserNotFoundError
   \<and> (\<exists>w. AuthController_SignUp (stub_controller (Inl context_DeadlineExceeded)
             (Inl context_DeadlineExceeded) (Inl context_DeadlineExceeded))
             demo_clock demo_request = Inr w
           \<and> Status w = http_StatusInternalServerError
           \<and> Body w = Some [(''message'', ''context deadline exceeded'')])
   \<and> (\<exists>w. AuthController_SignIn (stub_controller (Inl context_DeadlineExceeded)
             (Inl context_DeadlineExceeded) (Inl context_DeadlineExceeded))
             demo_clock demo_request = Inr w
           \<and> Status w = http_StatusInternalServerError
           \<and> Body w = Some [(''message'', ''context deadline exceeded'')])
   \<and> (\<exists>w. AuthController_Refresh (stub_controller (Inl context_DeadlineExceeded)
             (Inl context_DeadlineExceeded) (Inl context_DeadlineExceeded))
             demo_clock demo_request = Inr w
           \<and> Status w = http_StatusInternalServerError
           \<and> Body w = Some [(''message'', ''context deadline exceeded'')])"
  using unclassified_failure_internal [of demo_request demo_credentials
      "stub_controller (Inl context_DeadlineExceeded)
         (Inl context_DeadlineExceeded) (Inl context_DeadlineExceeded)"
      demo_clock context_DeadlineExceeded context_DeadlineExceeded "''R0''"
      context_DeadlineExceeded]
  by (auto simp add: c_Cookie_def context_DeadlineExceeded_def)

text \<open>
  The claim as written fails: two \<^verbatim>\<open>SignUp\<close> runs that fail with different unclassified
  errors both answer 500, with different bodies.
\<close>

theorem unclassified_failure_body_reveals_error:
  "response (AuthController_SignUp (stub_controller
       (Inl (GoError (ForeignError ''*net.OpError'')
               ''dial tcp 10.0.0.5:5432: connect: connection refused'' None))
       (Inr demo_tokens) (Inr demo_tokens)) demo_clock demo_request)
     = Some (http_StatusInternalServerError,
             Some [(''message'', ''dial tcp 10.0.0.5:5432: connect: connection refused'')], [])
   \<and> response (AuthController_SignUp (stub_controller (Inl context_DeadlineExceeded)
       (Inr demo_tokens) (Inr demo_tokens)) demo_clock demo_request)
     = Some (http_StatusInternalServerError,
             Some [(''message'', ''context deadline exceeded'')], [])
   \<and> response (AuthController_SignUp (stub_controller
       (Inl (GoError (ForeignError ''*net.OpError'')
               ''dial tcp 10.0.0.5:5432: connect: connection refused'' None))
       (Inr demo_tokens) (Inr demo_tokens)) demo_clock demo_request)
     \<noteq> response (AuthController_SignUp (stub_controller (Inl context_DeadlineExceeded)
       (Inr demo_tokens) (Inr demo_tokens)) demo_clock demo_request)"
  by (simp add: SignUp_run [where creds = demo_credentials] response_def
      context_DeadlineExceeded_def)

text \<open>
  C5. \<^verbatim>\<open>SignUp\<close>: when the capability succeeds, the answer is 200 with a body of the
  single field \<^verbatim>\<open>message\<close> and no cookie; when it fails with an
  \<^verbatim>\<open>AlreadyExistsError\<close>, the answer is 409; for any other failure it is 500.
\<close>

theorem signup_status:
  fixes ac :: "'a AuthController"
  assumes "Keys c ''validatedBody'' = Some (CredentialsVal creds)"
  shows
  "(\<forall>a. SignUp (authService ac) (ctx_of clock) creds = Inr a \<longrightarrow>
      (\<exists>w m. AuthController_SignUp ac clock c = Inr w \<and> Status w = http_StatusOK
             \<and> Body w = Some [(''message'', m)] \<and> SetCookie w = []))
   \<and> (\<forall>err. SignUp (authService ac) (ctx_of clock) creds = Inl err
          \<and> errors_As err AlreadyExistsError \<longrightarrow>
      (\<exists>w. AuthController_SignUp ac clock c = Inr w \<and> Status w = http_StatusConflict))
   \<and> (\<forall>err. SignUp (authService ac) (ctx_of clock) creds = Inl err
          \<and> \<not> errors_As err AlreadyExistsError \<longrightarrow>
      (\<exists>w. AuthController_SignUp ac clock c = Inr w
           \<and> Status w = http_StatusInternalServerError))"
  using assms by (simp add: SignUp_run)

theorem signup_status_witness:
  "Keys demo_request ''validatedBody'' = Some (CredentialsVal demo_credentials)
   \<and> SignUp (authService (stub_controller
          (Inl (GoError (ForeignError ''*fmt.wrapError'') ''signup: user already exists''
             (Some (GoError AlreadyExistsError ''user already exists'' None))))
          (Inr demo_tokens) (Inr demo_tokens)))
        (ctx_of demo_clock) demo_credentials
      = Inl (GoError (ForeignError ''*fmt.wrapError'') ''signup: user already exists''
               (Some (GoError AlreadyExistsError ''user already exists'' None)))
   \<and> errors_As (GoError (ForeignError ''*fmt.wrapError'') ''signup: user already exists''
               (Some (GoError AlreadyExistsError ''user already exists'' None)))
        AlreadyExistsError
   \<and> (\<exists>w. AuthController_SignUp (stub_controller
             (Inl (GoError (ForeignError ''*fmt.wrapError'') ''signup: user already exists''
             (Some (GoError AlreadyExistsError ''user already exists'' None))))
             (Inr demo_tokens) (Inr demo_tokens)) demo_clock demo_request = Inr w
           \<and> Status w = http_StatusConflict)"
  using signup_status [of demo_request demo_credentials
      "stub_controller (Inl (GoError (ForeignError ''*fmt.wrapError'') ''signup: user already exists''
             (Some (GoError AlreadyExistsError ''user already exists'' None))))
         (Inr demo_tokens) (Inr demo_tokens)" demo_clock]
  by simp

text \<open>
  C6. \<^verbatim>\<open>SignIn\<close>: a failure with an \<^verbatim>\<open>InvalidCredentialsError\<close> is answered with 401
  and no cookie, any other failure with 500 and no cookie, and a success with 200 and the
  two token cookies. Conversely, an answer of 200, or one that sets any cookie, comes from
  a successful call of the capability.
\<close>

theorem signin_status_and_cookies:
  fixes ac :: "'a AuthController"
  shows
  "(Keys c ''validatedBody'' = Some (CredentialsVal creds) \<longrightarrow>
      (\<forall>err. SignIn (authService ac) (ctx_of clock) creds = Inl err
           \<and> errors_As err InvalidCredentialsError \<longrightarrow>
         (\<exists>w. AuthController_SignIn ac clock c = Inr w
              \<and> Status w = http_StatusUnauthorized \<and> SetCookie w = []))
      \<and> (\<forall>err. SignIn (authService ac) (ctx_of clock) creds = Inl err
           \<and> \<not> errors_As err InvalidCredentialsError \<longrightarrow>
         (\<exists>w. AuthController_SignIn ac clock c = Inr w
              \<and> Status w = http_StatusInternalServerError \<and> SetCookie w = []))
      \<and> (\<forall>tp. SignIn (authService ac) (ctx_of clock) creds = Inr tp \<longrightarrow>
         (\<exists>w. AuthController_SignIn ac clock c = Inr w
              \<and> Status w = http_StatusOK
              \<and> map Name (SetCookie w) = [''access_token'', ''refresh_token''])))
   \<and> (\<forall>w. AuthController_SignIn ac clock c = Inr w
          \<and> (Status w = http_StatusOK \<or> SetCookie w \<noteq> []) \<longrightarrow>
        (\<exists>d tp. Keys c ''validatedBody'' = Some (CredentialsVal d)
               \<and> SignIn (authService ac) (ctx_of clock) d = Inr tp))"
proof (intro conjI impI allI)
  fix w
  assume r: "AuthController_SignIn ac clock c = Inr w
               \<and> (Status w = http_StatusOK \<or> SetCookie w \<noteq> [])"
  show "\<exists>d tp. Keys c ''validatedBody'' = Some (CredentialsVal d)
               \<and> SignIn (authService ac) (ctx_of clock) d = Inr tp"
  proof (cases "Keys c ''validatedBody''")
    case None
    with r show ?thesis by (simp add: SignIn_panic)
  next
    case (Some v)
    show ?thesis
    proof (cases v)
      case (CredentialsVal d)
      with Some r show ?thesis
        by (cases "SignIn (authService ac) (ctx_of clock) d")
           (auto simp add: SignIn_run split: if_splits)
    next
      case OtherVal
      with Some r show ?thesis by (simp add: SignIn_panic)
    qed
  qed
qed (simp_all add: SignIn_run)

theorem signin_status_and_cookies_witness:
  "Keys demo_request ''validatedBody'' = Some (CredentialsVal demo_credentials)
   \<and> SignIn (authService (stub_controller (Inr ())
          (Inl (GoError InvalidCredentialsError ''invalid email or password'' None))
          (Inr demo_tokens)))
        (ctx_of demo_clock) demo_credentials
      = Inl (GoError InvalidCredentialsError ''invalid email or password'' None)
   \<and> errors_As (GoError InvalidCredentialsError ''invalid email or password'' None)
        InvalidCredentialsError
   \<and> (\<exists>w. AuthController_SignIn (stub_controller (Inr ())
             (Inl (GoError InvalidCredentialsError ''invalid email or password'' None))
             (Inr demo_tokens)) demo_clock demo_request = Inr w
           \<and> Status w = http_StatusUnauthorized \<and> SetCookie w = [])"
  using signin_status_and_cookies [of demo_request demo_credentials
      "stub_controller (Inr ())
         (Inl (GoError InvalidCredentialsError ''invalid email or password'' None))
         (Inr demo_tokens)" demo_clock]
  by simp

text \<open>
  C7. A successful \<^verbatim>\<open>SignUp\<close> answers 200 with the body
  \<^verbatim>\<open>{"message":"User successfully registered"}\<close> and sets no cookie. The value the
  capability returned is dropped: two capabilities that succeed with different values
  lead to the same outcome.
\<close>

theorem signup_success_no_token:
  fixes ac :: "'a AuthController" and ac' :: "'b AuthController"
  assumes "Keys c ''validatedBody'' = Some (CredentialsVal creds)"
    and "SignUp (authService ac) (ctx_of clock) creds = Inr a"
    and "SignUp (authService ac') (ctx_of clock) creds = Inr a'"
  shows "AuthController_SignUp ac clock c =
           Inr \<lparr>Status = http_StatusOK,
                Body = Some [(''message'', ''User successfully registered'')],
                SetCookie = [], logged = [],
                calls = [CallSignUp (ctx_of clock) creds], now_reads = 1\<rparr>
         \<and> AuthController_SignUp ac' clock c = AuthController_SignUp ac clock c"
  using assms by (simp add: SignUp_run)

theorem signup_success_no_token_witness:
  "Keys demo_request ''validatedBody'' = Some (CredentialsVal demo_credentials)
   \<and> SignUp (authService \<lparr>authService = stub_AuthService (Inr ''user-1'')
          (Inr demo_tokens) (Inr demo_tokens)\<rparr>) (ctx_of demo_clock) demo_credentials
      = Inr ''user-1''
   \<and> SignUp (authService \<lparr>authService = stub_AuthService (Inr (2::nat))
          (Inr demo_tokens) (Inr demo_tokens)\<rparr>) (ctx_of demo_clock) demo_credentials
      = Inr 2
   \<and> AuthController_SignUp \<lparr>authService = stub_AuthService (Inr ''user-1'')
          (Inr demo_tokens) (Inr demo_tokens)\<rparr> demo_clock demo_request
      = Inr \<lparr>Status = http_StatusOK,
             Body = Some [(''message'', ''User successfully registered'')],
             SetCookie = [], logged = [],
             calls = [CallSignUp (WithDeadline Background 100000000000) demo_credentials],
             now_reads = 1\<rparr>
   \<and> AuthController_SignUp \<lparr>authService = stub_AuthService (Inr (2::nat))
          (Inr demo_tokens) (Inr demo_tokens)\<rparr> demo_clock demo_request
      = AuthController_SignUp \<lparr>authService = stub_AuthService (Inr ''user-1'')
          (Inr demo_tokens) (Inr demo_tokens)\<rparr> demo_clock demo_request"
  using signup_success_no_token [of demo_request demo_credentials
      "\<lparr>authService = stub_AuthService (Inr ''user-1'') (Inr demo_tokens) (Inr demo_tokens)\<rparr>"
      demo_clock "''user-1''"
      "\<lparr>authService = stub_AuthService (Inr (2::nat)) (Inr demo_tokens) (Inr demo_tokens)\<rparr>"
      2]
  by (simp add: stub_AuthService_def demo_clock_def time_Second_def)

text \<open>
  C8. Each handler creates its context from the first clock reading, with a deadline
  \<^verbatim>\<open>100*time.Second\<close> later, and that context is the one passed to the capability.
  If the capability returns \<^verbatim>\<open>context.DeadlineExceeded\<close>, the answer is 500 and no
  cookie is set.
\<close>

theorem deadline_context:
  fixes ac :: "'a AuthController"
  shows
  "(Keys c ''validatedBody'' = Some (CredentialsVal creds) \<longrightarrow>
      (\<exists>w. AuthController_SignUp ac clock c = Inr w
         \<and> calls w = [CallSignUp (WithDeadline Background (clock 0 + 100 * time_Second)) creds]
         \<and> (SignUp (authService ac) (WithDeadline Background (clock 0 + 100 * time_Second)) creds
              = Inl context_DeadlineExceeded \<longrightarrow>
            Status w = http_StatusInternalServerError \<and> SetCookie w = []))
      \<and> (\<exists>w. AuthController_SignIn ac clock c = Inr w
         \<and> calls w = [CallSignIn (WithDeadline Background (clock 0 + 100 * time_Second)) creds]
         \<and> (SignIn (authService ac) (WithDeadline Background (clock 0 + 100 * time_Second)) creds
              = Inl context_DeadlineExceeded \<longrightarrow>
            Status w = http_StatusInternalServerError \<and> SetCookie w = [])))
   \<and> (c_Cookie c ''refresh_token'' = Some tok \<longrightarrow>
      (\<exists>w. AuthController_Refresh ac clock c = Inr w
         \<and> calls w = [CallRefresh (WithDeadline Background (clock 0 + 100 * time_Second))
                        (MapToUserRefreshTokenDTO tok)]
         \<and> (Refresh (authService ac) (WithDeadline Background (clock 0 + 100 * time_Second))
               (MapToUserRefreshTokenDTO tok)
              = Inl context_DeadlineExceeded \<longrightarrow>
            Status w = http_StatusInternalServerError \<and> SetCookie w = [])))"
proof (intro conjI impI)
  assume k: "Keys c ''validatedBody'' = Some (CredentialsVal creds)"
  show "\<exists>w. AuthController_SignUp ac clock c = Inr w
         \<and> calls w = [CallSignUp (WithDeadline Background (clock 0 + 100 * time_Second)) creds]
         \<and> (SignUp (authService ac) (WithDeadline Background (clock 0 + 100 * time_Second)) creds
              = Inl context_DeadlineExceeded \<longrightarrow>
            Status w = http_StatusInternalServerError \<and> SetCookie w = [])"
    by (cases "SignUp (authService ac) (ctx_of clock) creds")
       (simp_all add: SignUp_run [OF k] context_DeadlineExceeded_def)
  show "\<exists>w. AuthController_SignIn ac clock c = Inr w
         \<and> calls w = [CallSignIn (WithDeadline Background (clock 0 + 100 * time_Second)) creds]
         \<and> (SignIn (authService ac) (WithDeadline Background (clock 0 + 100 * time_Second)) creds
              = Inl context_DeadlineExceeded \<longrightarrow>
            Status w = http_StatusInternalServerError \<and> SetCookie w = [])"
    by (cases "SignIn (authService ac) (ctx_of clock) creds")
       (simp_all add: SignIn_run [OF k] context_DeadlineExceeded_def)
next
  assume "c_Cookie c ''refresh_token'' = Some tok"
  then have k: "cookies c ''refresh_token'' = Some tok"
    by (simp add: c_Cookie_def)
  show "\<exists>w. AuthController_Refresh ac clock c = Inr w
         \<and> calls w = [CallRefresh (WithDeadline Background (clock 0 + 100 * time_Second))
                        (MapToUserRefreshTokenDTO tok)]
         \<and> (Refresh (authService ac) (WithDeadline Background (clock 0 + 100 * time_Second))
               (MapToUserRefreshTokenDTO tok)
              = Inl context_DeadlineExceeded \<longrightarrow>
            Status w = http_StatusInternalServerError \<and> SetCookie w = [])"
    by (cases "Refresh (authService ac) (ctx_of clock) (MapToUserRefreshTokenDTO tok)")
       (simp_all add: Refresh_run [OF k] context_DeadlineExceeded_def)
qed

theorem deadline_context_witness:
  "Keys demo_request ''validatedBody'' = Some (CredentialsVal demo_credentials)
   \<and> c_Cookie demo_request ''refresh_token'' = Some ''R0''
   \<and> (\<exists>w. AuthController_SignUp (stub_controller (Inl context_DeadlineExceeded)
             (Inl context_DeadlineExceeded) (Inl context_DeadlineExceeded))
             demo_clock demo_request = Inr w
         \<and> calls w = [CallSignUp (WithDeadline Background 100000000000) demo_credentials]
         \<and> Status w = http_StatusInternalServerError \<and> SetCookie w = [])
   \<and> (\<exists>w. AuthController_SignIn (stub_controller (Inl context_DeadlineExceeded)
             (Inl context_DeadlineExceeded) (Inl context_DeadlineExceeded))
             demo_clock demo_request = Inr w
         \<and> calls w = [CallSignIn (WithDeadline Background 100000000000) demo_credentials]
         \<and> Status w = http_StatusInternalServerError \<and> SetCookie w = [])
   \<and> (\<exists>w. AuthController_Refresh (stub_controller (Inl context_DeadlineExceeded)
             (Inl context_DeadlineExceeded) (Inl context_DeadlineExceeded))
             demo_clock demo_request = Inr w
         \<and> calls w = [CallRefresh (WithDeadline Background 100000000000)
                        (MapToUserRefreshTokenDTO ''R0'')]
         \<and> Status w = http_StatusInternalServerError \<and> SetCookie w = [])"
  using deadline_context [of demo_request demo_credentials
      "stub_controller (Inl context_DeadlineExceeded)
         (Inl context_DeadlineExceeded) (Inl context_DeadlineExceeded)"
      demo_clock "''R0''"]
  by (simp add: c_Cookie_def demo_clock_def time_Second_def)

text \<open>
  C9. The claim asks for a body with the one field \<^verbatim>\<open>message\<close> on every failure. A
  \<^verbatim>\<open>Refresh\<close> request without the \<^verbatim>\<open>refresh_token\<close> cookie is answered with a body
  whose one field is named \<^verbatim>\<open>error\<close>.
\<close>

theorem refresh_missing_cookie_body:
  "AuthController_Refresh (stub_controller (Inr ()) (Inr demo_tokens) (Inr demo_tokens))
     demo_clock \<lparr>Keys = Map.empty, cookies = Map.empty\<rparr>
   = Inr \<lparr>Status = http_StatusUnauthorized,
          Body = Some [(''error'', ''Invalid refresh token'')],
          SetCookie = [], logged = [], calls = [], now_reads = 1\<rparr>"
  by (simp add: Refresh_no_cookie)

text \<open>
  C10. On success the \<^verbatim>\<open>access_token\<close> cookie holds the pair's \<^verbatim>\<open>AccessToken\<close> and
  the \<^verbatim>\<open>refresh_token\<close> cookie holds its \<^verbatim>\<open>RefreshToken\<close>, for \<^verbatim>\<open>SignIn\<close> and for
  \<^verbatim>\<open>Refresh\<close>; and \<^verbatim>\<open>Refresh\<close> calls the capability once, with the envelope that
  holds the string \<^verbatim>\<open>c.Cookie("refresh_token")\<close> returned.
\<close>

theorem cookie_values_bound_to_pair:
  fixes ac :: "'a AuthController"
  shows
  "(Keys c ''validatedBody'' = Some (CredentialsVal creds)
      \<and> SignIn (authService ac) (ctx_of clock) creds = Inr tp \<longrightarrow>
      (\<exists>w. AuthController_SignIn ac clock c = Inr w
         \<and> map (\<lambda>k. (Name k, Value k)) (SetCookie w) =
             [(''access_token'', AccessToken tp),
              (''refresh_token'', UserTokensDTO.RefreshToken tp)]))
   \<and> (c_Cookie c ''refresh_token'' = Some tok \<longrightarrow>
      (\<exists>w. AuthController_Refresh ac clock c = Inr w
         \<and> calls w =
             [CallRefresh (ctx_of clock) \<lparr>UserRefreshTokenDTO.RefreshToken = tok\<rparr>]
         \<and> (\<forall>tp'. Refresh (authService ac) (ctx_of clock)
                    \<lparr>UserRefreshTokenDTO.RefreshToken = tok\<rparr> = Inr tp' \<longrightarrow>
              map (\<lambda>k. (Name k, Value k)) (SetCookie w) =
                [(''access_token'', AccessToken tp'),
                 (''refresh_token'', UserTokensDTO.RefreshToken tp')])))"
proof (intro conjI impI)
  assume "Keys c ''validatedBody'' = Some (CredentialsVal creds)
      \<and> SignIn (authService ac) (ctx_of clock) creds = Inr tp"
  then show "\<exists>w. AuthController_SignIn ac clock c = Inr w
         \<and> map (\<lambda>k. (Name k, Value k)) (SetCookie w) =
             [(''access_token'', AccessToken tp),
              (''refresh_token'', UserTokensDTO.RefreshToken tp)]"
    by (simp add: SignIn_run)
next
  assume "c_Cookie c ''refresh_token'' = Some tok"
  then have k: "cookies c ''refresh_token'' = Some tok"
    by (simp add: c_Cookie_def)
  show "\<exists>w. AuthController_Refresh ac clock c = Inr w
         \<and> calls w =
             [CallRefresh (ctx_of clock) \<lparr>UserRefreshTokenDTO.RefreshToken = tok\<rparr>]
         \<and> (\<forall>tp'. Refresh (authService ac) (ctx_of clock)
                    \<lparr>UserRefreshTokenDTO.RefreshToken = tok\<rparr> = Inr tp' \<longrightarrow>
              map (\<lambda>k. (Name k, Value k)) (SetCookie w) =
                [(''access_token'', AccessToken tp'),
                 (''refresh_token'', UserTokensDTO.RefreshToken tp')])"
    by (cases "Refresh (authService ac) (ctx_of clock)
                 \<lparr>UserRefreshTokenDTO.RefreshToken = tok\<rparr>")
       (simp_all add: Refresh_run [OF k] MapToUserRefreshTokenDTO_def)
qed

theorem cookie_values_bound_to_pair_witness:
  "Keys demo_request ''validatedBody'' = Some (CredentialsVal demo_credentials)
   \<and> SignIn (authService (stub_controller (Inr ()) (Inr demo_tokens) (Inr demo_tokens)))
        (ctx_of demo_clock) demo_credentials = Inr demo_tokens
   \<and> c_Cookie demo_request ''refresh_token'' = Some ''R0''
   \<and> (\<exists>w. AuthController_SignIn
          (stub_controller (Inr ()) (Inr demo_tokens) (Inr demo_tokens)) demo_clock demo_request
          = Inr w
        \<and> map (\<lambda>k. (Name k, Value k)) (SetCookie w) =
            [(''access_token'', ''A1''), (''refresh_token'', ''R1'')])
   \<and> (\<exists>w. AuthController_Refresh
          (stub_controller (Inr ()) (Inr demo_tokens) (Inr demo_tokens)) demo_clock demo_request
          = Inr w
        \<and> calls w =
            [CallRefresh (ctx_of demo_clock) \<lparr>UserRefreshTokenDTO.RefreshToken = ''R0''\<rparr>]
        \<and> map (\<lambda>k. (Name k, Value k)) (SetCookie w) =
            [(''access_token'', ''A1''), (''refresh_token'', ''R1'')])"
  using cookie_values_bound_to_pair [of demo_request demo_credentials
      "stub_controller (Inr ()) (Inr demo_tokens) (Inr demo_tokens)" demo_clock demo_tokens
      "''R0''"]
  by (simp add: c_Cookie_def demo_tokens_def)

end
